theory Spec2Isabelle
  imports Complex_Main "HOL-Library.Sublist" "HOL-Library.Word"
begin

section \<open>The realtime chat page (src/app/page.tsx)\<close>

text \<open>
  The page is one React component, \<^verbatim>\<open>RealTimePage\<close>. Its state variables
  (\<^verbatim>\<open>useState\<close>) and references (\<^verbatim>\<open>useRef\<close>) are the fields of one
  record; every handler of the component is a function from that record to the updated
  record. Three further fields record what the handlers do to the platform: the lines
  written to the console, the messages passed to \<^verbatim>\<open>RTCDataChannel.send\<close>, and the
  number of calls of \<^verbatim>\<open>getUserMedia\<close>.

  A functional state update \<^verbatim>\<open>setX((prev) => f(prev))\<close> and a plain update
  \<^verbatim>\<open>setX(v)\<close> are applied by React in the order of the calls, so a handler is
  modelled by applying its updates one after the other. The updates a handler has made
  before it throws are applied as well.
\<close>

subsection \<open>Inbound events: the values of \<^verbatim>\<open>JSON.parse\<close>\<close>

text \<open>
  The listener hands the result of \<^verbatim>\<open>JSON.parse\<close> to \<^verbatim>\<open>handleRealtimeEvent\<close>
  unchecked; the interface \<^verbatim>\<open>RealtimeEvent\<close> exists at compile time only. An inbound
  event is therefore any JSON value. A number is a double: a finite one by its value
  (both zeros are \<open>Finite 0\<close>), an overflowing literal by the sign of its infinity.
  The members of an object are kept in the order of the text.
\<close>

datatype js_number = Finite rat | Infinite bool

datatype json =
  JNull
| JBool bool
| JNumber js_number
| JString string
| JArray "json list"
| JObject "(string \<times> json) list"

datatype js_error = InvalidStateError | TypeError

text \<open>
  An own member of a parsed object: of members with the same name the last one of the
  text counts.
\<close>

definition own_property :: "(string \<times> json) list \<Rightarrow> string \<Rightarrow> json option" where
  "own_property members name = map_of (rev members) name"

text \<open>
  Reading \<^verbatim>\<open>v.name\<close>, for the names the page reads (\<^verbatim>\<open>type\<close>, \<^verbatim>\<open>response\<close>,
  \<^verbatim>\<open>output\<close>, \<^verbatim>\<open>content\<close>, \<^verbatim>\<open>transcript\<close>, \<^verbatim>\<open>text\<close>): on \<^verbatim>\<open>null\<close> a
  \<^verbatim>\<open>TypeError\<close>; on an object its own member, or \<^verbatim>\<open>undefined\<close> (\<open>None\<close>); on
  an array, a string, a number or a boolean \<^verbatim>\<open>undefined\<close>, as no prototype has a
  property of these names.
\<close>

definition get_prop :: "json \<Rightarrow> string \<Rightarrow> js_error + json option" where
  "get_prop v name =
     (case v of
        JNull \<Rightarrow> Inl TypeError
      | JObject members \<Rightarrow> Inr (own_property members name)
      | _ \<Rightarrow> Inr None)"

text \<open>The truth value of a JSON value in a condition.\<close>

definition truthy :: "json \<Rightarrow> bool" where
  "truthy v =
     (case v of
        JNull \<Rightarrow> False
      | JBool b \<Rightarrow> b
      | JNumber n \<Rightarrow> n \<noteq> Finite 0
      | JString str \<Rightarrow> str \<noteq> []
      | JArray xs \<Rightarrow> True
      | JObject members \<Rightarrow> True)"

subsection \<open>Platform objects\<close>

text \<open>
  A Blob is its bytes; \<^verbatim>\<open>new Blob(parts)\<close> concatenates the parts. Its media type
  (\<^verbatim>\<open>audio/webm\<close>) is not read by the page.
\<close>

type_synonym blob = "8 word list"

definition blob_size :: "blob \<Rightarrow> nat" where
  "blob_size b = length b"

definition new_Blob :: "blob list \<Rightarrow> blob" where
  "new_Blob parts = concat parts"

text \<open>
  The peer connection, with what \<^verbatim>\<open>initRealTimeConnection\<close> sets on it.
\<close>

record peer_connection =
  local_tracks :: nat
  local_description :: "string option"
  remote_description :: "string option"

text \<open>
  The data channel. \<^verbatim>\<open>RTCDataChannel.send\<close> throws an \<^verbatim>\<open>InvalidStateError\<close>
  unless the channel's ready state is open.
\<close>

record data_channel =
  dc_label :: string
  dc_open :: bool

text \<open>
  The media recorder made by \<^verbatim>\<open>startRecording\<close>. Its \<^verbatim>\<open>onstop\<close> handler is a
  closure created inside that call of \<^verbatim>\<open>startRecording\<close>; the name
  \<^verbatim>\<open>audioChunks\<close> in it is the constant of the render whose \<^verbatim>\<open>startRecording\<close>
  was invoked, so the handler carries that value with it (\<open>onstop_audioChunks\<close>).
\<close>

record media_recorder =
  rec_active :: bool
  onstop_audioChunks :: "blob list"

text \<open>
  The messages handed to \<^verbatim>\<open>send\<close>, before \<^verbatim>\<open>JSON.stringify\<close>: the envelope
  \<^verbatim>\<open>{type: "audio", data: btoa(bytes)}\<close> is kept as the bytes it encodes, the
  envelope \<^verbatim>\<open>{type: "message", data: {text}}\<close> as its text.
\<close>

datatype outbound = Audio_envelope blob | Message_envelope string

text \<open>
  A console line: the fixed text of the call, with a string argument appended to it; of
  \<^verbatim>\<open>console.log("Unhandled event type:", event.type, event)\<close> the two values are
  kept as they are.
\<close>

datatype console_line =
  Console_log string
| Console_error string
| Console_log_values string "json option list"

subsection \<open>The component's state\<close>

text \<open>
  The AI transcript holds whatever values the handler appends, and the latest AI
  utterance is the value last set, \<^verbatim>\<open>null\<close> at mount.
\<close>

record page_state =
  pcRef :: "peer_connection option"
  dcRef :: "data_channel option"
  audioElRef :: bool
  remoteStream :: "nat option"
  isInitialized :: bool
  isRecording :: bool
  aiMessages :: "json list"
  userMessages :: "string list"
  mediaRecorder :: "media_recorder option"
  audioChunks :: "blob list"
  isProcessing :: bool
  isAISpeaking :: bool
  aiTranscript :: json
  error :: "string option"
  console :: "console_line list"
  dc_sent :: "outbound list"
  getUserMedia_calls :: nat

definition initial_state :: page_state where
  "initial_state =
     \<lparr> pcRef = None, dcRef = None, audioElRef = False, remoteStream = None,
       isInitialized = False, isRecording = False, aiMessages = [], userMessages = [],
       mediaRecorder = None, audioChunks = [], isProcessing = False,
       isAISpeaking = False, aiTranscript = JNull, error = None,
       console = [], dc_sent = [], getUserMedia_calls = 0 \<rparr>"

subsection \<open>handleRealtimeEvent\<close>

text \<open>
  The outcome of a handler that may throw: \<open>Inr\<close> the state when it returns,
  \<open>Inl\<close> the error and the state with the updates made before the throw.

  \<^verbatim>\<open>xs.forEach(f)\<close> on an array calls \<open>f\<close> on each element in order and stops at the
  first call that throws. An array made by \<^verbatim>\<open>JSON.parse\<close> has no holes.
\<close>

type_synonym outcome = "(js_error \<times> page_state) + page_state"

fun forEach :: "(page_state \<Rightarrow> json \<Rightarrow> outcome) \<Rightarrow> json list \<Rightarrow> page_state \<Rightarrow> outcome" where
  "forEach f [] s = Inr s"
| "forEach f (x # xs) s =
     (case f s x of
        Inl thrown \<Rightarrow> Inl thrown
      | Inr s' \<Rightarrow> forEach f xs s')"

text \<open>
  The call \<^verbatim>\<open>v.forEach(f)\<close> on a value that is not \<^verbatim>\<open>undefined\<close>: only an array has
  the method; on every other value the call throws a \<^verbatim>\<open>TypeError\<close> (on an object,
  even one with a member of that name, which is no function).
\<close>

definition call_forEach :: "json \<Rightarrow> (page_state \<Rightarrow> json \<Rightarrow> outcome) \<Rightarrow> page_state \<Rightarrow> outcome" where
  "call_forEach v f s =
     (case v of
        JArray xs \<Rightarrow> forEach f xs s
      | _ \<Rightarrow> Inl (TypeError, s))"

text \<open>The body of the inner \<^verbatim>\<open>item.content.forEach\<close>.\<close>

definition handle_content :: "page_state \<Rightarrow> json \<Rightarrow> outcome" where
  "handle_content s c =
     (case get_prop c ''type'' of
        Inl err \<Rightarrow> Inl (err, s)
      | Inr ty \<Rightarrow>
          if ty = Some (JString ''audio'') then
            (case get_prop c ''transcript'' of
               Inl err \<Rightarrow> Inl (err, s)
             | Inr None \<Rightarrow> Inr s
             | Inr (Some t) \<Rightarrow> Inr (s\<lparr>aiMessages := aiMessages s @ [t], aiTranscript := t\<rparr>))
          else if ty = Some (JString ''text'') then
            (case get_prop c ''text'' of
               Inl err \<Rightarrow> Inl (err, s)
             | Inr None \<Rightarrow> Inr s
             | Inr (Some t) \<Rightarrow> Inr (s\<lparr>aiMessages := aiMessages s @ [t], aiTranscript := t\<rparr>))
          else Inr s)"

text \<open>The body of the outer \<^verbatim>\<open>event.response.output.forEach\<close>.\<close>

definition handle_item :: "page_state \<Rightarrow> json \<Rightarrow> outcome" where
  "handle_item s item =
     (case get_prop item ''type'' of
        Inl err \<Rightarrow> Inl (err, s)
      | Inr ty \<Rightarrow>
          if ty = Some (JString ''message'') then
            (case get_prop item ''content'' of
               Inl err \<Rightarrow> Inl (err, s)
             | Inr None \<Rightarrow> Inr s
             | Inr (Some cont) \<Rightarrow>
                 if truthy cont then call_forEach cont handle_content s else Inr s)
          else Inr s)"

definition handleRealtimeEvent :: "json \<Rightarrow> page_state \<Rightarrow> outcome" where
  "handleRealtimeEvent event s =
     (case get_prop event ''type'' of
        Inl err \<Rightarrow> Inl (err, s)
      | Inr ty \<Rightarrow>
          if ty = Some (JString ''response.done'') then
            (case get_prop event ''response'' of
               Inl err \<Rightarrow> Inl (err, s)
             | Inr None \<Rightarrow> Inr s
             | Inr (Some r) \<Rightarrow>
                 if \<not> truthy r then Inr s
                 else
                   (case get_prop r ''output'' of
                      Inl err \<Rightarrow> Inl (err, s)
                    | Inr None \<Rightarrow> Inr s
                    | Inr (Some out) \<Rightarrow>
                        if \<not> truthy out then Inr s
                        else
                          (case call_forEach out handle_item s of
                             Inl thrown \<Rightarrow> Inl thrown
                           | Inr s' \<Rightarrow> Inr (s'\<lparr>isProcessing := False\<rparr>))))
          else if ty = Some (JString ''response.error'') then
            Inr (s\<lparr>aiMessages := aiMessages s @ [JString ''AI encountered an error.''],
                   isProcessing := False\<rparr>)
          else
            Inr (s\<lparr>console := console s @
                   [Console_log_values ''Unhandled event type:'' [ty, Some event]]\<rparr>))"

subsection \<open>The data channel's message listener\<close>

text \<open>
  \<^verbatim>\<open>JSON.parse\<close> is the platform's; it is a parameter, and \<open>None\<close> stands for its
  \<^verbatim>\<open>SyntaxError\<close>. The listener's \<^verbatim>\<open>try\<close> holds the parse and the call of
  \<^verbatim>\<open>handleRealtimeEvent\<close>, so its \<^verbatim>\<open>catch\<close> also takes what the handler throws.
\<close>

definition listener_catch :: "string \<Rightarrow> page_state \<Rightarrow> page_state" where
  "listener_catch data s =
     s\<lparr>console := console s @ [Console_error (''Failed to parse message data: '' @ data)]\<rparr>"

definition dc_onmessage ::
  "(string \<Rightarrow> json option) \<Rightarrow> string \<Rightarrow> page_state \<Rightarrow> page_state" where
  "dc_onmessage JSON_parse data s =
     (case JSON_parse data of
        None \<Rightarrow> listener_catch data s
      | Some realtimeEvent \<Rightarrow>
          (case handleRealtimeEvent realtimeEvent s of
             Inr s' \<Rightarrow> s'
           | Inl (err, s') \<Rightarrow> listener_catch data s'))"

text \<open>The channel's ready state becomes open (a platform event; the page has no handler).\<close>

definition dc_onopen :: "page_state \<Rightarrow> page_state" where
  "dc_onopen s =
     (case dcRef s of
        None \<Rightarrow> s
      | Some dc \<Rightarrow> s\<lparr>dcRef := Some (dc\<lparr>dc_open := True\<rparr>)\<rparr>)"

subsection \<open>initRealTimeConnection\<close>

text \<open>
  What the awaited platform operations answer is the environment of the call: a promise
  rejects or resolves. The synchronous platform calls (\<^verbatim>\<open>new RTCPeerConnection\<close>,
  \<^verbatim>\<open>createElement\<close>, \<^verbatim>\<open>addTrack\<close>, \<^verbatim>\<open>createDataChannel\<close>) are taken to
  succeed. The credential is only forwarded in a header of the second fetch, whose answer
  is part of the environment.
\<close>

datatype 'a awaited = Rejects | Resolves 'a

text \<open>
  The body of the credential response: \<open>client_secret\<close> is \<open>None\<close> when the JSON
  has no such member (reading \<^verbatim>\<open>client_secret.value\<close> then throws a
  \<^verbatim>\<open>TypeError\<close>), otherwise its \<^verbatim>\<open>value\<close> member, which may be undefined.
\<close>

record session_body =
  client_secret :: "string option option"

record token_response =
  token_ok :: bool
  token_json :: "session_body awaited"

record sdp_response =
  sdp_ok :: bool
  sdp_text :: "string awaited"

record init_env =
  token_fetch :: "token_response awaited"
  local_media :: "unit awaited"
  create_offer :: "string awaited"
  set_local_description :: "unit awaited"
  sdp_fetch :: "sdp_response awaited"
  set_remote_description :: "unit awaited"

definition new_RTCPeerConnection :: peer_connection where
  "new_RTCPeerConnection =
     \<lparr> local_tracks = 0, local_description = None, remote_description = None \<rparr>"

text \<open>The \<^verbatim>\<open>catch\<close> block of \<^verbatim>\<open>initRealTimeConnection\<close>.\<close>

definition init_catch :: "page_state \<Rightarrow> page_state" where
  "init_catch s =
     s\<lparr>console := console s @ [Console_error ''Error initializing real-time connection:''],
       error := Some ''Failed to initialize connection. Please try again.''\<rparr>"

definition initRealTimeConnection :: "init_env \<Rightarrow> page_state \<Rightarrow> page_state" where
  "initRealTimeConnection env s =
     (case token_fetch env of
        Rejects \<Rightarrow> init_catch s
      | Resolves tokenResponse \<Rightarrow>
        if \<not> token_ok tokenResponse then init_catch s
        else
          (case token_json tokenResponse of
             Rejects \<Rightarrow> init_catch s
           | Resolves body \<Rightarrow>
             (case client_secret body of
                None \<Rightarrow> init_catch s
              | Some EPHEMERAL_KEY \<Rightarrow>
                let pc = new_RTCPeerConnection;
                    s1 = s\<lparr>pcRef := Some pc, audioElRef := True\<rparr>;
                    s2 = s1\<lparr>getUserMedia_calls := getUserMedia_calls s1 + 1\<rparr>
                in
                (case local_media env of
                   Rejects \<Rightarrow> init_catch s2
                 | Resolves localStream \<Rightarrow>
                   let pc1 = pc\<lparr>local_tracks := local_tracks pc + 1\<rparr>;
                       dc = \<lparr> dc_label = ''oai-events'', dc_open = False \<rparr>;
                       s3 = s2\<lparr>pcRef := Some pc1, dcRef := Some dc\<rparr>
                   in
                   (case create_offer env of
                      Rejects \<Rightarrow> init_catch s3
                    | Resolves offer_sdp \<Rightarrow>
                      (case set_local_description env of
                         Rejects \<Rightarrow> init_catch s3
                       | Resolves u \<Rightarrow>
                         let pc2 = pc1\<lparr>local_description := Some offer_sdp\<rparr>;
                             s4 = s3\<lparr>pcRef := Some pc2\<rparr>
                         in
                         (case sdp_fetch env of
                            Rejects \<Rightarrow> init_catch s4
                          | Resolves sdpResponse \<Rightarrow>
                            if \<not> sdp_ok sdpResponse then init_catch s4
                            else
                              (case sdp_text sdpResponse of
                                 Rejects \<Rightarrow> init_catch s4
                               | Resolves remoteAnswerSDP \<Rightarrow>
                                 (case set_remote_description env of
                                    Rejects \<Rightarrow> init_catch s4
                                  | Resolves v \<Rightarrow>
                                    s4\<lparr>pcRef :=
                                         Some (pc2\<lparr>remote_description := Some remoteAnswerSDP\<rparr>),
                                       isInitialized := True,
                                       console := console s4 @
                                         [Console_log ''Real-time connection initialized!'']\<rparr>)))))))))"

text \<open>
  The handlers the page attaches to the peer connection and to the audio element:
  \<^verbatim>\<open>pc.ontrack\<close> (with the index of the track's first stream), and the
  \<^verbatim>\<open>play\<close> and \<^verbatim>\<open>ended\<close> listeners.
\<close>

definition pc_ontrack :: "nat \<Rightarrow> page_state \<Rightarrow> page_state" where
  "pc_ontrack stream s =
     (let s1 = s\<lparr>console := console s @ [Console_log ''Received remote audio track:'']\<rparr>
      in if audioElRef s1
         then s1\<lparr>console := console s1 @ [Console_log ''Received remote audio track:''],
                 remoteStream := Some stream\<rparr>
         else s1)"

definition handlePlay :: "page_state \<Rightarrow> page_state" where
  "handlePlay s = s\<lparr>isAISpeaking := True\<rparr>"

definition handleEnded :: "page_state \<Rightarrow> page_state" where
  "handleEnded s = s\<lparr>isAISpeaking := False\<rparr>"

subsection \<open>sendAudio and sendTextMessage\<close>

text \<open>
  \<^verbatim>\<open>reader.onload\<close>, with the bytes read. \<^verbatim>\<open>dcRef.current?.send\<close> does nothing
  when the reference is null and throws when the channel is not open; a throw leaves the
  handler before \<^verbatim>\<open>setUserMessages\<close>.
\<close>

definition reader_onload :: "blob \<Rightarrow> page_state \<Rightarrow> js_error + page_state" where
  "reader_onload arrayBuffer s =
     (case dcRef s of
        None \<Rightarrow> Inr (s\<lparr>userMessages := userMessages s @ [''You: Audio sent'']\<rparr>)
      | Some dc \<Rightarrow>
          if dc_open dc
          then Inr (s\<lparr>dc_sent := dc_sent s @ [Audio_envelope arrayBuffer],
                      userMessages := userMessages s @ [''You: Audio sent'']\<rparr>)
          else Inl InvalidStateError)"

text \<open>
  \<^verbatim>\<open>sendAudio\<close> up to \<^verbatim>\<open>reader.readAsArrayBuffer(audioBlob)\<close>: the state, and the
  blob whose read it has started (the load event comes later, as \<open>reader_onload\<close>;
  reading a blob held in memory is taken to succeed).
\<close>

definition sendAudio :: "blob \<Rightarrow> page_state \<Rightarrow> page_state \<times> blob option" where
  "sendAudio audioBlob s =
     (case dcRef s of
        None \<Rightarrow>
          (s\<lparr>console := console s @ [Console_error ''Data channel not initialized.''],
             isProcessing := False,
             error := Some ''Data channel not initialized.''\<rparr>, None)
      | Some dc \<Rightarrow> (s, Some audioBlob))"

definition sendTextMessage :: "string \<Rightarrow> page_state \<Rightarrow> js_error + page_state" where
  "sendTextMessage txt s =
     (case dcRef s of
        None \<Rightarrow> Inr s
      | Some dc \<Rightarrow>
          if dc_open dc
          then Inr (s\<lparr>dc_sent := dc_sent s @ [Message_envelope txt],
                      userMessages := userMessages s @ [''You: '' @ txt],
                      isProcessing := True\<rparr>)
          else Inl InvalidStateError)"

subsection \<open>startRecording and stopRecording\<close>

text \<open>
  \<^verbatim>\<open>startRecording\<close>, with the answer of \<^verbatim>\<open>getUserMedia\<close>. The recorder's
  \<^verbatim>\<open>onstop\<close> closure takes \<^verbatim>\<open>audioChunks\<close> as this call sees it, that is the
  state's value before \<^verbatim>\<open>setAudioChunks([])\<close>. On a granted stream
  \<^verbatim>\<open>new MediaRecorder\<close> and \<^verbatim>\<open>recorder.start()\<close> are taken to succeed.
\<close>

definition startRecording :: "unit awaited \<Rightarrow> page_state \<Rightarrow> page_state" where
  "startRecording mic s =
     (case pcRef s of
        None \<Rightarrow> s\<lparr>console := console s @ [Console_error ''PeerConnection not initialized.'']\<rparr>
      | Some pc \<Rightarrow>
          let s1 = s\<lparr>getUserMedia_calls := getUserMedia_calls s + 1\<rparr> in
          (case mic of
             Rejects \<Rightarrow>
               s1\<lparr>console := console s1 @ [Console_error ''Error starting recording:''],
                  error := Some ''Failed to start recording.''\<rparr>
           | Resolves stream \<Rightarrow>
               s1\<lparr>mediaRecorder :=
                    Some \<lparr> rec_active = True, onstop_audioChunks = audioChunks s \<rparr>,
                  audioChunks := [],
                  isRecording := True,
                  isProcessing := True,
                  console := console s1 @ [Console_log ''Recording started.'']\<rparr>))"

text \<open>\<^verbatim>\<open>recorder.ondataavailable\<close>, with \<^verbatim>\<open>event.data\<close>.\<close>

definition recorder_ondataavailable :: "blob \<Rightarrow> page_state \<Rightarrow> page_state" where
  "recorder_ondataavailable data s =
     (if blob_size data > 0 then s\<lparr>audioChunks := audioChunks s @ [data]\<rparr> else s)"

text \<open>\<^verbatim>\<open>recorder.onstop\<close> of the recorder \<open>r\<close>.\<close>

definition recorder_onstop :: "media_recorder \<Rightarrow> page_state \<Rightarrow> page_state \<times> blob option" where
  "recorder_onstop r s = sendAudio (new_Blob (onstop_audioChunks r)) s"

text \<open>
  \<^verbatim>\<open>stopRecording\<close>. \<^verbatim>\<open>MediaRecorder.stop()\<close> makes an active recorder inactive,
  and the platform then fires \<^verbatim>\<open>dataavailable\<close> with the data gathered, followed by
  \<^verbatim>\<open>stop\<close>, on that recorder (\<open>recorder_stop_events\<close>). The second component of
  the result is the recorder on which these events will fire. On a recorder that is
  already inactive \<^verbatim>\<open>stop()\<close> returns at once and fires nothing (W3C MediaStream
  Recording).
\<close>

definition stopRecording :: "page_state \<Rightarrow> page_state \<times> media_recorder option" where
  "stopRecording s =
     (case mediaRecorder s of
        None \<Rightarrow> (s, None)
      | Some r \<Rightarrow>
          (s\<lparr>mediaRecorder := Some (r\<lparr>rec_active := False\<rparr>),
             isRecording := False,
             console := console s @ [Console_log ''Recording stopped.'']\<rparr>,
           if rec_active r then Some r else None))"

definition recorder_stop_events ::
  "media_recorder \<Rightarrow> blob \<Rightarrow> page_state \<Rightarrow> page_state \<times> blob option" where
  "recorder_stop_events r gathered s = recorder_onstop r (recorder_ondataavailable gathered s)"

subsection \<open>Runs of the page\<close>

text \<open>
  The states the page can be in: the state at mount, and every state a handler or a
  platform callback leaves behind. \<^verbatim>\<open>initRealTimeConnection\<close> is taken as one step;
  a send that throws leaves no new state.
\<close>

inductive reachable :: "page_state \<Rightarrow> bool" where
  mount: "reachable initial_state"
| init: "reachable s \<Longrightarrow> reachable (initRealTimeConnection env s)"
| message: "reachable s \<Longrightarrow> reachable (dc_onmessage JSON_parse data s)"
| channel_open: "reachable s \<Longrightarrow> reachable (dc_onopen s)"
| track: "reachable s \<Longrightarrow> reachable (pc_ontrack stream s)"
| play: "reachable s \<Longrightarrow> reachable (handlePlay s)"
| ended: "reachable s \<Longrightarrow> reachable (handleEnded s)"
| start: "reachable s \<Longrightarrow> reachable (startRecording mic s)"
| chunk: "reachable s \<Longrightarrow> reachable (recorder_ondataavailable data s)"
| stop: "reachable s \<Longrightarrow> reachable (fst (stopRecording s))"
| send_audio: "reachable s \<Longrightarrow> reachable (fst (sendAudio audioBlob s))"
| load: "reachable s \<Longrightarrow> reader_onload arrayBuffer s = Inr s' \<Longrightarrow> reachable s'"
| send_text: "reachable s \<Longrightarrow> sendTextMessage txt s = Inr s' \<Longrightarrow> reachable s'"

text \<open>Processing a sequence of inbound messages, one after the other.\<close>

definition handle_messages ::
  "(string \<Rightarrow> json option) \<Rightarrow> string list \<Rightarrow> page_state \<Rightarrow> page_state" where
  "handle_messages JSON_parse msgs s = fold (dc_onmessage JSON_parse) msgs s"

text \<open>
  The operations that touch a transcript. A send that throws leaves the state as it was;
  an event handler that throws leaves the updates it has made.
\<close>

datatype operation =
  Handle_event json
| Send_audio blob
| Reader_load blob
| Send_text string

definition perform :: "operation \<Rightarrow> page_state \<Rightarrow> page_state" where
  "perform op s =
     (case op of
        Handle_event event \<Rightarrow>
          (case handleRealtimeEvent event s of Inl (err, s') \<Rightarrow> s' | Inr s' \<Rightarrow> s')
      | Send_audio audioBlob \<Rightarrow> fst (sendAudio audioBlob s)
      | Reader_load arrayBuffer \<Rightarrow>
          (case reader_onload arrayBuffer s of Inl err \<Rightarrow> s | Inr s' \<Rightarrow> s')
      | Send_text txt \<Rightarrow>
          (case sendTextMessage txt s of Inl err \<Rightarrow> s | Inr s' \<Rightarrow> s'))"

subsection \<open>What the specification counts\<close>

text \<open>
  The output of an event: the member \<^verbatim>\<open>output\<close> of its member \<^verbatim>\<open>response\<close>, when
  both are present and truthy. The type discriminator of an event. Whether an output
  item is of kind message.
\<close>

definition json_member :: "json \<Rightarrow> string \<Rightarrow> json option" where
  "json_member v name = (case v of JObject members \<Rightarrow> own_property members name | _ \<Rightarrow> None)"

definition present :: "json option \<Rightarrow> json option" where
  "present v = (case v of None \<Rightarrow> None | Some x \<Rightarrow> if truthy x then Some x else None)"

definition event_output :: "json \<Rightarrow> json option" where
  "event_output event =
     (case present (json_member event ''response'') of
        None \<Rightarrow> None
      | Some r \<Rightarrow> present (json_member r ''output''))"

definition event_type :: "json \<Rightarrow> json option" where
  "event_type event = json_member event ''type''"

definition is_message :: "json \<Rightarrow> bool" where
  "is_message item = (json_member item ''type'' = Some (JString ''message''))"

text \<open>
  All content entries of an event, over all its output items, whatever their kinds; and
  their number over a sequence of events.
\<close>

definition content_entries :: "json \<Rightarrow> json list" where
  "content_entries event =
     (case event_output event of
        Some (JArray items) \<Rightarrow>
          concat (map (\<lambda>item. case json_member item ''content'' of
                                 Some (JArray cs) \<Rightarrow> cs | _ \<Rightarrow> []) items)
      | _ \<Rightarrow> [])"

definition content_entries_total :: "json list \<Rightarrow> nat" where
  "content_entries_total events = sum_list (map (\<lambda>e. length (content_entries e)) events)"

text \<open>
  The utterance a content entry carries: the member \<^verbatim>\<open>transcript\<close> of an entry of type
  audio, the member \<^verbatim>\<open>text\<close> of an entry of type text.
\<close>

definition entry_utterance :: "json \<Rightarrow> json option" where
  "entry_utterance c =
     (if json_member c ''type'' = Some (JString ''audio'') then json_member c ''transcript''
      else if json_member c ''type'' = Some (JString ''text'') then json_member c ''text''
      else None)"

definition entry_values :: "json \<Rightarrow> json list" where
  "entry_values c = (case entry_utterance c of None \<Rightarrow> [] | Some t \<Rightarrow> [t])"

text \<open>
  Ill-shaped parts, on which the handler throws: a content entry that is null; an output
  item that is null, or of kind message with a content that is present (truthy) and is
  not an array or holds a null entry; an output that is not an array or holds an
  ill-shaped item.
\<close>

definition item_faults :: "json \<Rightarrow> bool" where
  "item_faults item =
     (item = JNull \<or>
      (is_message item \<and>
       (case present (json_member item ''content'') of
          None \<Rightarrow> False
        | Some (JArray cs) \<Rightarrow> JNull \<in> set cs
        | Some other \<Rightarrow> True)))"

definition event_faults :: "json \<Rightarrow> bool" where
  "event_faults event =
     (case event_output event of
        None \<Rightarrow> False
      | Some (JArray items) \<Rightarrow> list_ex item_faults items
      | Some other \<Rightarrow> True)"

text \<open>
  The elements of a list that a loop reaches when it stops at the first faulty one: those
  before it, and the faulty one itself.
\<close>

definition reached :: "('a \<Rightarrow> bool) \<Rightarrow> 'a list \<Rightarrow> 'a list" where
  "reached faulty xs =
     takeWhile (\<lambda>x. \<not> faulty x) xs @ take 1 (dropWhile (\<lambda>x. \<not> faulty x) xs)"

text \<open>
  What an output item appends: for an item of kind message whose content is an array,
  the utterances of the entries before the first null entry. What an event appends: that
  of the output items reached, in order.
\<close>

definition item_appends :: "json \<Rightarrow> json list" where
  "item_appends item =
     (if is_message item then
        (case json_member item ''content'' of
           Some (JArray cs) \<Rightarrow> List.map_filter entry_utterance (takeWhile (\<lambda>c. c \<noteq> JNull) cs)
         | _ \<Rightarrow> [])
      else [])"

definition event_appends :: "json \<Rightarrow> json list" where
  "event_appends event =
     (case event_output event of
        Some (JArray items) \<Rightarrow> concat (map item_appends (reached item_faults items))
      | _ \<Rightarrow> [])"

text \<open>The state a handler leaves behind, whether it returns or throws.\<close>

definition state_of :: "outcome \<Rightarrow> page_state" where
  "state_of result = (case result of Inl (err, s') \<Rightarrow> s' | Inr s' \<Rightarrow> s')"

text \<open>
  Appending utterances to the AI transcript and marking the last one as the latest AI
  utterance.
\<close>

definition latest :: "json list \<Rightarrow> json \<Rightarrow> json" where
  "latest us old = (if us = [] then old else last us)"

definition add_utterances :: "json list \<Rightarrow> page_state \<Rightarrow> page_state" where
  "add_utterances us s =
     s\<lparr>aiMessages := aiMessages s @ us, aiTranscript := latest us (aiTranscript s)\<rparr>"

subsection \<open>Concrete inputs\<close>

definition ok_env :: init_env where
  "ok_env =
     \<lparr> token_fetch =
         Resolves \<lparr> token_ok = True,
                    token_json = Resolves \<lparr> client_secret = Some (Some ''ek_1'') \<rparr> \<rparr>,
       local_media = Resolves (),
       create_offer = Resolves ''v=0 offer'',
       set_local_description = Resolves (),
       sdp_fetch = Resolves \<lparr> sdp_ok = True, sdp_text = Resolves ''v=0 answer'' \<rparr>,
       set_remote_description = Resolves () \<rparr>"

text \<open>The credential endpoint answers HTTP 500.\<close>

definition http_500_env :: init_env where
  "http_500_env =
     ok_env\<lparr>token_fetch :=
       Resolves \<lparr> token_ok = False, token_json = Resolves \<lparr> client_secret = None \<rparr> \<rparr>\<rparr>"

text \<open>The page after a successful initialisation, with the data channel open.\<close>

definition connected_state :: page_state where
  "connected_state = dc_onopen (initRealTimeConnection ok_env initial_state)"

text \<open>
  Inbound messages and the values \<^verbatim>\<open>JSON.parse\<close> gives for them.
\<close>

definition done_audio_without_transcript :: json where
  "done_audio_without_transcript =
     JObject [(''type'', JString ''response.done''),
              (''response'', JObject [(''output'', JArray
                 [JObject [(''type'', JString ''message''),
                           (''content'', JArray [JObject [(''type'', JString ''audio'')]])]])])]"

definition done_hi_there :: json where
  "done_hi_there =
     JObject [(''type'', JString ''response.done''),
              (''response'', JObject [(''output'', JArray
                 [JObject [(''type'', JString ''message''),
                           (''content'', JArray
                              [JObject [(''type'', JString ''audio''),
                                        (''transcript'', JString ''Hi'')],
                               JObject [(''type'', JString ''text''),
                                        (''text'', JString ''there'')]])]])])]"

definition done_a_then_null :: json where
  "done_a_then_null =
     JObject [(''type'', JString ''response.done''),
              (''response'', JObject [(''output'', JArray
                 [JObject [(''type'', JString ''message''),
                           (''content'', JArray
                              [JObject [(''type'', JString ''text''),
                                        (''text'', JString ''a'')]])],
                  JNull])])]"

definition done_without_response :: json where
  "done_without_response = JObject [(''type'', JString ''response.done'')]"

definition error_event :: json where
  "error_event = JObject [(''type'', JString ''response.error'')]"

definition msg_done_audio_without_transcript :: string where
  \<open>msg_done_audio_without_transcript =
     ''{"type":"response.done","response":{"output":[{"type":"message","content":[{"type":"audio"}]}]}}''\<close>

definition msg_done_hi_there :: string where
  \<open>msg_done_hi_there =
     ''{"type":"response.done","response":{"output":[{"type":"message","content":[{"type":"audio","transcript":"Hi"},{"type":"text","text":"there"}]}]}}''\<close>

definition msg_done_a_then_null :: string where
  \<open>msg_done_a_then_null =
     ''{"type":"response.done","response":{"output":[{"type":"message","content":[{"type":"text","text":"a"}]},null]}}''\<close>

definition msg_done_without_response :: string where
  \<open>msg_done_without_response = ''{"type":"response.done"}''\<close>

definition msg_error :: string where
  \<open>msg_error = ''{"type":"response.error"}''\<close>

text \<open>
  \<^verbatim>\<open>JSON.parse\<close> on these messages; every other text is taken as one that does not
  parse.
\<close>

definition JSON_parse_example :: "string \<Rightarrow> json option" where
  "JSON_parse_example data =
     (if data = msg_done_audio_without_transcript then Some done_audio_without_transcript
      else if data = msg_done_hi_there then Some done_hi_there
      else if data = msg_done_a_then_null then Some done_a_then_null
      else if data = msg_done_without_response then Some done_without_response
      else if data = msg_error then Some error_event
      else None)"

section \<open>Properties\<close>

subsection \<open>The event dispatcher, in closed form\<close>

lemma get_prop_eq:
  "get_prop v name = (if v = JNull then Inl TypeError else Inr (json_member v name))"
  by (cases v) (simp_all add: get_prop_def json_member_def)

lemma add_utterances_Nil: "add_utterances [] s = s"
  by (simp add: add_utterances_def latest_def)

lemma add_utterances_append:
  "add_utterances vs (add_utterances us s) = add_utterances (us @ vs) s"
  by (simp add: add_utterances_def latest_def)

lemma reached_Nil: "reached faulty [] = []"
  by (simp add: reached_def)

lemma reached_Cons:
  "reached faulty (x # xs) = (if faulty x then [x] else x # reached faulty xs)"
  by (simp add: reached_def)

text \<open>
  A loop whose body appends the values of an element, or throws on a faulty element
  after appending them, appends the values of the elements reached, and throws when
  there is a faulty element.
\<close>

lemma forEach_closed:
  assumes body: "\<And>s x. f s x =
      (if faulty x then Inl (TypeError, add_utterances (vals x) s)
       else Inr (add_utterances (vals x) s))"
  shows "forEach f xs s =
      (if list_ex faulty xs
       then Inl (TypeError, add_utterances (concat (map vals (reached faulty xs))) s)
       else Inr (add_utterances (concat (map vals (reached faulty xs))) s))"
proof (induction xs arbitrary: s)
  case Nil
  show ?case by (simp add: reached_Nil add_utterances_Nil)
next
  case (Cons x xs)
  show ?case
  proof (cases "faulty x")
    case True
    then show ?thesis by (simp add: body reached_Cons)
  next
    case False
    then have "forEach f (x # xs) s = forEach f xs (add_utterances (vals x) s)"
      by (simp add: body)
    with False show ?thesis
      by (simp add: Cons.IH reached_Cons add_utterances_append)
  qed
qed

lemma entry_utterance_JNull: "entry_utterance JNull = None"
  by (simp add: entry_utterance_def json_member_def)

lemma handle_content_closed:
  "handle_content s c =
     (if c = JNull then Inl (TypeError, add_utterances (entry_values c) s)
      else Inr (add_utterances (entry_values c) s))"
  by (simp add: handle_content_def get_prop_eq entry_values_def entry_utterance_def
      add_utterances_def latest_def json_member_def split: option.splits)

lemma entries_reached:
  "concat (map entry_values (reached (\<lambda>c. c = JNull) cs)) =
   List.map_filter entry_utterance (takeWhile (\<lambda>c. c \<noteq> JNull) cs)"
  by (induction cs)
     (simp_all add: reached_Nil reached_Cons List.map_filter_simps entry_values_def
        entry_utterance_JNull split: option.splits)

lemma forEach_handle_content:
  "forEach handle_content cs s =
     (if JNull \<in> set cs
      then Inl (TypeError,
        add_utterances (List.map_filter entry_utterance (takeWhile (\<lambda>c. c \<noteq> JNull) cs)) s)
      else Inr
        (add_utterances (List.map_filter entry_utterance (takeWhile (\<lambda>c. c \<noteq> JNull) cs)) s))"
proof -
  have "list_ex (\<lambda>c. c = JNull) cs = (JNull \<in> set cs)"
    by (auto simp add: list_ex_iff)
  then show ?thesis
    using forEach_closed [of handle_content "\<lambda>c. c = JNull" entry_values cs s,
        OF handle_content_closed]
    by (simp add: entries_reached)
qed

lemma handle_item_closed:
  "handle_item s item =
     (if item_faults item then Inl (TypeError, add_utterances (item_appends item) s)
      else Inr (add_utterances (item_appends item) s))"
proof (cases "item = JNull")
  case True
  then show ?thesis
    by (simp add: handle_item_def get_prop_def item_faults_def item_appends_def is_message_def
        json_member_def add_utterances_Nil)
next
  case notnull: False
  show ?thesis
  proof (cases "is_message item")
    case False
    with notnull show ?thesis
      by (simp add: handle_item_def get_prop_eq item_faults_def item_appends_def is_message_def
          add_utterances_Nil)
  next
    case msg: True
    show ?thesis
    proof (cases "json_member item ''content''")
      case None
      with notnull msg show ?thesis
        by (simp add: handle_item_def get_prop_eq item_faults_def item_appends_def
            is_message_def present_def add_utterances_Nil)
    next
      case (Some cont)
      with notnull msg show ?thesis
        by (cases cont)
           (simp_all add: handle_item_def get_prop_eq item_faults_def item_appends_def
              is_message_def present_def truthy_def call_forEach_def forEach_handle_content
              add_utterances_Nil)
    qed
  qed
qed

lemma forEach_handle_item:
  "forEach handle_item items s =
     (if list_ex item_faults items
      then Inl (TypeError, add_utterances (concat (map item_appends (reached item_faults items))) s)
      else Inr (add_utterances (concat (map item_appends (reached item_faults items))) s))"
  by (rule forEach_closed) (rule handle_item_closed)

lemma handleRealtimeEvent_done:
  assumes "event_type e = Some (JString ''response.done'')"
  shows "handleRealtimeEvent e s =
     (case event_output e of
        None \<Rightarrow> Inr s
      | Some out \<Rightarrow>
          if event_faults e then Inl (TypeError, add_utterances (event_appends e) s)
          else Inr ((add_utterances (event_appends e) s)\<lparr>isProcessing := False\<rparr>))"
proof -
  from assms have notnull: "e \<noteq> JNull"
    by (auto simp add: event_type_def json_member_def)
  from assms have ty: "json_member e ''type'' = Some (JString ''response.done'')"
    by (simp add: event_type_def)
  have absent: "handleRealtimeEvent e s = Inr s \<and> event_output e = None"
    if "present (json_member e ''response'') = None"
  proof (cases "json_member e ''response''")
    case None
    with notnull ty show ?thesis
      by (simp add: handleRealtimeEvent_def get_prop_eq event_output_def present_def)
  next
    case (Some r)
    with that have "\<not> truthy r" by (simp add: present_def split: if_splits)
    with Some notnull ty show ?thesis
      by (simp add: handleRealtimeEvent_def get_prop_eq event_output_def present_def)
  qed
  show ?thesis
  proof (cases "present (json_member e ''response'')")
    case None
    with absent show ?thesis by simp
  next
    case r: (Some r)
    then have rr: "json_member e ''response'' = Some r" and tr: "truthy r"
      by (simp_all add: present_def split: option.splits if_splits)
    from tr have rnn: "r \<noteq> JNull" by (auto simp add: truthy_def)
    show ?thesis
    proof (cases "present (json_member r ''output'')")
      case None
      then have eo: "event_output e = None"
        using r by (simp add: event_output_def)
      have "handleRealtimeEvent e s = Inr s"
      proof (cases "json_member r ''output''")
        case None
        with notnull ty rr tr rnn show ?thesis
          by (simp add: handleRealtimeEvent_def get_prop_eq)
      next
        case (Some out)
        with \<open>present (json_member r ''output'') = None\<close> have "\<not> truthy out"
          by (simp add: present_def split: if_splits)
        with Some notnull ty rr tr rnn show ?thesis
          by (simp add: handleRealtimeEvent_def get_prop_eq)
      qed
      with eo show ?thesis by simp
    next
      case out: (Some out)
      then have oo: "json_member r ''output'' = Some out" and tout: "truthy out"
        by (simp_all add: present_def split: option.splits if_splits)
      have eo: "event_output e = Some out"
        using r out by (simp add: event_output_def)
      have "handleRealtimeEvent e s =
            (case call_forEach out handle_item s of
               Inl thrown \<Rightarrow> Inl thrown
             | Inr s' \<Rightarrow> Inr (s'\<lparr>isProcessing := False\<rparr>))"
        using notnull ty rr tr rnn oo tout
        by (simp add: handleRealtimeEvent_def get_prop_eq)
      then show ?thesis
        using eo
        by (cases out)
           (simp_all add: call_forEach_def forEach_handle_item event_faults_def
              event_appends_def add_utterances_Nil)
    qed
  qed
qed

lemma state_of_done:
  assumes "event_type e = Some (JString ''response.done'')"
  shows "state_of (handleRealtimeEvent e s) =
     (if event_output e \<noteq> None \<and> \<not> event_faults e
      then (add_utterances (event_appends e) s)\<lparr>isProcessing := False\<rparr>
      else add_utterances (event_appends e) s)"
proof (cases "event_output e")
  case None
  then show ?thesis
    by (simp add: handleRealtimeEvent_done [OF assms] state_of_def event_appends_def
        add_utterances_Nil)
next
  case (Some out)
  then show ?thesis
    by (simp add: handleRealtimeEvent_done [OF assms] state_of_def)
qed

text \<open>What every handled event leaves unchanged.\<close>

lemma handleRealtimeEvent_frame:
  "pcRef (state_of (handleRealtimeEvent e s)) = pcRef s \<and>
   dcRef (state_of (handleRealtimeEvent e s)) = dcRef s \<and>
   userMessages (state_of (handleRealtimeEvent e s)) = userMessages s \<and>
   mediaRecorder (state_of (handleRealtimeEvent e s)) = mediaRecorder s \<and>
   isRecording (state_of (handleRealtimeEvent e s)) = isRecording s \<and>
   (isProcessing (state_of (handleRealtimeEvent e s)) \<longrightarrow> isProcessing s) \<and>
   prefix (aiMessages s) (aiMessages (state_of (handleRealtimeEvent e s)))"
proof (cases "event_type e = Some (JString ''response.done'')")
  case True
  then show ?thesis
    by (simp add: state_of_done add_utterances_def)
next
  case False
  then show ?thesis
    by (simp add: handleRealtimeEvent_def get_prop_eq state_of_def event_type_def)
qed

lemma dc_onmessage_state:
  "dc_onmessage JSON_parse data s =
     (case JSON_parse data of
        None \<Rightarrow> listener_catch data s
      | Some e \<Rightarrow>
          if isl (handleRealtimeEvent e s)
          then listener_catch data (state_of (handleRealtimeEvent e s))
          else state_of (handleRealtimeEvent e s))"
  by (simp add: dc_onmessage_def state_of_def split: option.splits sum.splits prod.splits)

lemma dc_onmessage_frame:
  "pcRef (dc_onmessage JSON_parse data s) = pcRef s \<and>
   dcRef (dc_onmessage JSON_parse data s) = dcRef s \<and>
   userMessages (dc_onmessage JSON_parse data s) = userMessages s \<and>
   mediaRecorder (dc_onmessage JSON_parse data s) = mediaRecorder s \<and>
   isRecording (dc_onmessage JSON_parse data s) = isRecording s \<and>
   (isProcessing (dc_onmessage JSON_parse data s) \<longrightarrow> isProcessing s) \<and>
   prefix (aiMessages s) (aiMessages (dc_onmessage JSON_parse data s))"
proof (cases "JSON_parse data")
  case None
  then show ?thesis by (simp add: dc_onmessage_def listener_catch_def)
next
  case (Some e)
  with handleRealtimeEvent_frame [of e s] show ?thesis
    by (simp add: dc_onmessage_state listener_catch_def)
qed

lemma dc_onmessage_done:
  assumes "JSON_parse data = Some e" and "event_type e = Some (JString ''response.done'')"
  shows "aiMessages (dc_onmessage JSON_parse data s) = aiMessages s @ event_appends e"
    and "isProcessing (dc_onmessage JSON_parse data s) =
         (isProcessing s \<and> (event_output e = None \<or> event_faults e))"
  using assms
  by (simp_all add: dc_onmessage_state state_of_done listener_catch_def add_utterances_def)

subsection \<open>The example messages\<close>

lemma JSON_parse_example_simps:
  "JSON_parse_example msg_done_audio_without_transcript = Some done_audio_without_transcript"
  "JSON_parse_example msg_done_hi_there = Some done_hi_there"
  "JSON_parse_example msg_done_a_then_null = Some done_a_then_null"
  "JSON_parse_example msg_done_without_response = Some done_without_response"
  "JSON_parse_example msg_error = Some error_event"
  by (simp_all add: JSON_parse_example_def msg_done_audio_without_transcript_def
      msg_done_hi_there_def msg_done_a_then_null_def msg_done_without_response_def
      msg_error_def)

lemma example_event_types:
  "event_type done_audio_without_transcript = Some (JString ''response.done'')"
  "event_type done_hi_there = Some (JString ''response.done'')"
  "event_type done_a_then_null = Some (JString ''response.done'')"
  "event_type done_without_response = Some (JString ''response.done'')"
  "event_type error_event = Some (JString ''response.error'')"
  by (simp_all add: event_type_def json_member_def own_property_def
      done_audio_without_transcript_def done_hi_there_def done_a_then_null_def
      done_without_response_def error_event_def)

lemma example_event_outputs:
  "event_output done_audio_without_transcript =
     Some (JArray [JObject [(''type'', JString ''message''),
                            (''content'', JArray [JObject [(''type'', JString ''audio'')]])]])"
  "event_output done_hi_there =
     Some (JArray [JObject [(''type'', JString ''message''),
                            (''content'', JArray
                               [JObject [(''type'', JString ''audio''),
                                         (''transcript'', JString ''Hi'')],
                                JObject [(''type'', JString ''text''),
                                         (''text'', JString ''there'')]])]])"
  "event_output done_a_then_null =
     Some (JArray [JObject [(''type'', JString ''message''),
                            (''content'', JArray
                               [JObject [(''type'', JString ''text''),
                                         (''text'', JString ''a'')]])],
                   JNull])"
  "event_output done_without_response = None"
  by (simp_all add: event_output_def present_def json_member_def own_property_def truthy_def
      done_audio_without_transcript_def done_hi_there_def done_a_then_null_def
      done_without_response_def)

lemma example_event_appends:
  "event_appends done_audio_without_transcript = []"
  "event_appends done_hi_there = [JString ''Hi'', JString ''there'']"
  "event_appends done_a_then_null = [JString ''a'']"
  "event_appends done_without_response = []"
  by (simp_all add: event_appends_def example_event_outputs reached_Cons reached_Nil
      item_faults_def item_appends_def is_message_def present_def json_member_def
      own_property_def truthy_def entry_utterance_def List.map_filter_simps)

lemma example_event_faults:
  "\<not> event_faults done_audio_without_transcript"
  "\<not> event_faults done_hi_there"
  "event_faults done_a_then_null"
  "\<not> event_faults done_without_response"
  by (simp_all add: event_faults_def example_event_outputs item_faults_def is_message_def
      present_def json_member_def own_property_def truthy_def)

text \<open>Without a faulty element the loop reaches every element.\<close>

lemma reached_all: "\<not> list_ex faulty xs \<Longrightarrow> reached faulty xs = xs"
  by (induction xs) (simp_all add: reached_Nil reached_Cons)

subsection \<open>Sequences of \<^verbatim>\<open>response.done\<close> events\<close>

text \<open>
  C1, as amended. When every message of a sequence parses to an event of the type
  \<^verbatim>\<open>response.done\<close>, processing the sequence appends to the AI transcript, in arrival
  order, exactly what the events append. An event appends something only when its
  response payload and its output are present and the output is an array; then, going
  through the output items in order, up to and including the first ill-shaped one (a
  null item, or an item of kind message whose content is present and is not an array or
  holds a null entry), each item of kind message whose content is an array appends, for
  the content entries before the first null entry, the transcript member of each entry
  of type audio that has one and the text member of each entry of type text that has
  one. Started from the empty transcript of the mounted page, the transcript's length is
  the number of these values.
\<close>

theorem done_events_append_their_utterances:
  assumes "\<forall>d\<in>set msgs. \<exists>e. JSON_parse d = Some e \<and>
             event_type e = Some (JString ''response.done'')"
  shows "aiMessages (handle_messages JSON_parse msgs s) =
           aiMessages s @ concat (map event_appends (List.map_filter JSON_parse msgs)) \<and>
         length (aiMessages (handle_messages JSON_parse msgs initial_state)) =
           sum_list (map (\<lambda>e. length (event_appends e)) (List.map_filter JSON_parse msgs))"
proof -
  have gen: "aiMessages (fold (dc_onmessage JSON_parse) msgs s) =
             aiMessages s @ concat (map event_appends (List.map_filter JSON_parse msgs))" for s
    using assms
  proof (induction msgs arbitrary: s)
    case Nil
    show ?case by (simp add: List.map_filter_simps)
  next
    case (Cons d msgs)
    then obtain e where e: "JSON_parse d = Some e"
        "event_type e = Some (JString ''response.done'')"
      by auto
    from Cons have "aiMessages (fold (dc_onmessage JSON_parse) msgs (dc_onmessage JSON_parse d s)) =
        aiMessages (dc_onmessage JSON_parse d s) @
          concat (map event_appends (List.map_filter JSON_parse msgs))"
      by simp
    with e show ?case
      by (simp add: dc_onmessage_done List.map_filter_simps)
  qed
  have "aiMessages initial_state = []" by (simp add: initial_state_def)
  with gen [of initial_state] gen [of s] show ?thesis
    by (simp add: handle_messages_def length_concat comp_def)
qed

text \<open>
  The amended statement at three messages: a well-shaped one with two utterances, one
  whose output holds a null item after a message item, and one with an audio entry
  without transcript.
\<close>

theorem done_events_append_their_utterances_witness:
  "(\<exists>e. JSON_parse_example msg_done_hi_there = Some e \<and>
        event_type e = Some (JString ''response.done'')) \<and>
   (\<exists>e. JSON_parse_example msg_done_a_then_null = Some e \<and>
        event_type e = Some (JString ''response.done'')) \<and>
   (\<exists>e. JSON_parse_example msg_done_audio_without_transcript = Some e \<and>
        event_type e = Some (JString ''response.done'')) \<and>
   aiMessages (handle_messages JSON_parse_example
      [msg_done_hi_there, msg_done_a_then_null, msg_done_audio_without_transcript]
      initial_state) = [JString ''Hi'', JString ''there'', JString ''a''] \<and>
   length (aiMessages (handle_messages JSON_parse_example
      [msg_done_hi_there, msg_done_a_then_null, msg_done_audio_without_transcript]
      initial_state)) = 3"
  using done_events_append_their_utterances
    [of "[msg_done_hi_there, msg_done_a_then_null, msg_done_audio_without_transcript]"
        JSON_parse_example initial_state]
  by (simp add: JSON_parse_example_simps example_event_types example_event_appends
      List.map_filter_simps initial_state_def)

text \<open>
  C1 as stated fails: an audio entry without a transcript is a content entry, and nothing
  is appended for it.
\<close>

theorem transcript_length_is_not_entry_count:
  "length (aiMessages (handle_messages JSON_parse_example
      [msg_done_audio_without_transcript] initial_state)) \<noteq>
   content_entries_total (List.map_filter JSON_parse_example [msg_done_audio_without_transcript])"
  by (simp add: handle_messages_def dc_onmessage_done JSON_parse_example_simps
      example_event_types example_event_appends List.map_filter_simps initial_state_def
      content_entries_total_def content_entries_def example_event_outputs json_member_def
      own_property_def)

subsection \<open>The processing flag after \<^verbatim>\<open>response.done\<close>\<close>

lemma connected_state_eq:
  "connected_state =
     \<lparr> pcRef = Some \<lparr> local_tracks = 1, local_description = Some ''v=0 offer'',
                      remote_description = Some ''v=0 answer'' \<rparr>,
       dcRef = Some \<lparr> dc_label = ''oai-events'', dc_open = True \<rparr>,
       audioElRef = True, remoteStream = None,
       isInitialized = True, isRecording = False, aiMessages = [], userMessages = [],
       mediaRecorder = None, audioChunks = [], isProcessing = False,
       isAISpeaking = False, aiTranscript = JNull, error = None,
       console = [Console_log ''Real-time connection initialized!''],
       dc_sent = [], getUserMedia_calls = 1 \<rparr>"
  by (simp add: connected_state_def dc_onopen_def initRealTimeConnection_def ok_env_def
      initial_state_def new_RTCPeerConnection_def Let_def)

lemma recording_state_eq:
  "startRecording (Resolves ()) connected_state =
     connected_state
       \<lparr>mediaRecorder := Some \<lparr> rec_active = True, onstop_audioChunks = [] \<rparr>,
        isRecording := True, isProcessing := True,
        console := [Console_log ''Real-time connection initialized!'',
                    Console_log ''Recording started.''],
        getUserMedia_calls := 2\<rparr>"
  by (simp add: startRecording_def connected_state_eq)




text \<open>
  The same after a message whose output array holds a null item behind a message item:
  the utterance of the first item is appended, and the page is still processing.
\<close>

lemma done_with_null_item_keeps_processing:
  "isProcessing (dc_onmessage JSON_parse_example msg_done_a_then_null
     (startRecording (Resolves ()) connected_state)) \<and>
   aiMessages (dc_onmessage JSON_parse_example msg_done_a_then_null
     (startRecording (Resolves ()) connected_state)) = [JString ''a'']"
  unfolding recording_state_eq
  by (simp add: dc_onmessage_done JSON_parse_example_simps example_event_types
      example_event_outputs example_event_faults example_event_appends connected_state_eq)

subsection \<open>\<^verbatim>\<open>response.error\<close>\<close>

text \<open>
  C7. From every state, handling an event of type \<^verbatim>\<open>response.error\<close> returns
  normally, appends the one entry "AI encountered an error." to the AI transcript and
  sets the processing flag to false; every other field of the state is as before.
\<close>

theorem error_event_appends_one_entry:
  assumes "event_type e = Some (JString ''response.error'')"
  shows "handleRealtimeEvent e s =
         Inr (s\<lparr>aiMessages := aiMessages s @ [JString ''AI encountered an error.''],
                isProcessing := False\<rparr>)"
proof -
  from assms have "e \<noteq> JNull"
    by (auto simp add: event_type_def json_member_def)
  with assms show ?thesis
    by (simp add: handleRealtimeEvent_def get_prop_eq event_type_def)
qed

theorem error_event_appends_one_entry_witness:
  "event_type error_event = Some (JString ''response.error'') \<and>
   handleRealtimeEvent error_event connected_state =
     Inr (connected_state\<lparr>aiMessages := [JString ''AI encountered an error.''],
                           isProcessing := False\<rparr>)"
  using error_event_appends_one_entry [of error_event connected_state]
  by (simp add: example_event_types connected_state_eq)

subsection \<open>Malformed messages\<close>

text \<open>
  C9. When the payload of an inbound message does not parse as JSON, the listener writes
  one error line to the console and does nothing else: the transcripts, the flags, the
  error state and the data channel are as before.
\<close>

theorem unparseable_message_is_logged_only:
  assumes "JSON_parse data = None"
  shows "dc_onmessage JSON_parse data s =
           s\<lparr>console := console s @
               [Console_error (''Failed to parse message data: '' @ data)]\<rparr> \<and>
         aiMessages (dc_onmessage JSON_parse data s) = aiMessages s \<and>
         userMessages (dc_onmessage JSON_parse data s) = userMessages s \<and>
         isProcessing (dc_onmessage JSON_parse data s) = isProcessing s \<and>
         isRecording (dc_onmessage JSON_parse data s) = isRecording s \<and>
         isInitialized (dc_onmessage JSON_parse data s) = isInitialized s \<and>
         error (dc_onmessage JSON_parse data s) = error s \<and>
         dcRef (dc_onmessage JSON_parse data s) = dcRef s"
  using assms by (simp add: dc_onmessage_def listener_catch_def)

theorem unparseable_message_is_logged_only_witness:
  "JSON_parse_example ''{oops'' = None \<and>
   dc_onmessage JSON_parse_example ''{oops'' connected_state =
     connected_state\<lparr>console := console connected_state @
       [Console_error ''Failed to parse message data: {oops'']\<rparr> \<and>
   dcRef (dc_onmessage JSON_parse_example ''{oops''
     connected_state) = Some \<lparr> dc_label = ''oai-events'', dc_open = True \<rparr>"
  using unparseable_message_is_logged_only
    [of JSON_parse_example "''{oops''" connected_state]
  by (simp add: connected_state_eq JSON_parse_example_def msg_done_audio_without_transcript_def
      msg_done_hi_there_def msg_done_a_then_null_def msg_done_without_response_def
      msg_error_def)

subsection \<open>Text without a channel\<close>

text \<open>
  C5. When the data channel reference is null, \<^verbatim>\<open>sendTextMessage\<close> returns normally
  and leaves the whole state as it was: the user transcript, the processing flag and the
  list of messages passed to the channel included.
\<close>

theorem sendTextMessage_without_channel:
  assumes "dcRef s = None"
  shows "sendTextMessage txt s = Inr s"
  using assms by (simp add: sendTextMessage_def)

theorem sendTextMessage_without_channel_witness:
  "dcRef initial_state = None \<and> sendTextMessage ''hello'' initial_state = Inr initial_state"
  using sendTextMessage_without_channel [of initial_state "''hello''"]
  by (simp add: initial_state_def)

subsection \<open>Stop without a recorder\<close>

text \<open>
  C10. When the recorder state is null, \<^verbatim>\<open>stopRecording\<close> leaves the whole state as
  it was and stops no recorder, so no \<^verbatim>\<open>stop\<close> event follows and nothing reaches
  \<^verbatim>\<open>sendAudio\<close>.
\<close>

theorem stopRecording_without_recorder:
  assumes "mediaRecorder s = None"
  shows "stopRecording s = (s, None)"
  using assms by (simp add: stopRecording_def)

theorem stopRecording_without_recorder_witness:
  "mediaRecorder connected_state = None \<and> stopRecording connected_state = (connected_state, None)"
  using stopRecording_without_recorder [of connected_state]
  by (simp add: connected_state_eq)

subsection \<open>Credential failure\<close>

text \<open>
  C6. When the credential fetch answers with a response that is not ok,
  \<^verbatim>\<open>initRealTimeConnection\<close> only logs and sets the error state to "Failed to
  initialize connection. Please try again."; on the mounted page the peer connection and
  the data channel stay null, the initialized flag stays false and no microphone is
  requested.
\<close>

theorem credential_failure_aborts:
  assumes "token_fetch env = Resolves tokenResponse" and "\<not> token_ok tokenResponse"
  shows "initRealTimeConnection env s =
           s\<lparr>console := console s @ [Console_error ''Error initializing real-time connection:''],
             error := Some ''Failed to initialize connection. Please try again.''\<rparr> \<and>
         error (initRealTimeConnection env initial_state) =
           Some ''Failed to initialize connection. Please try again.'' \<and>
         pcRef (initRealTimeConnection env initial_state) = None \<and>
         dcRef (initRealTimeConnection env initial_state) = None \<and>
         \<not> isInitialized (initRealTimeConnection env initial_state) \<and>
         getUserMedia_calls (initRealTimeConnection env initial_state) = 0"
  using assms by (simp add: initRealTimeConnection_def init_catch_def initial_state_def)

theorem credential_failure_aborts_witness:
  "token_fetch http_500_env =
     Resolves \<lparr> token_ok = False, token_json = Resolves \<lparr> client_secret = None \<rparr> \<rparr> \<and>
   \<not> token_ok \<lparr> token_ok = False, token_json = Resolves \<lparr> client_secret = None \<rparr> \<rparr> \<and>
   error (initRealTimeConnection http_500_env initial_state) =
     Some ''Failed to initialize connection. Please try again.'' \<and>
   pcRef (initRealTimeConnection http_500_env initial_state) = None \<and>
   \<not> isInitialized (initRealTimeConnection http_500_env initial_state)"
  using credential_failure_aborts [of http_500_env
      "\<lparr> token_ok = False, token_json = Resolves \<lparr> client_secret = None \<rparr> \<rparr>" initial_state]
  by (simp add: http_500_env_def ok_env_def initial_state_def)

subsection \<open>Transcripts only grow\<close>

lemma perform_Handle_event: "perform (Handle_event e) s = state_of (handleRealtimeEvent e s)"
  by (simp add: perform_def state_of_def)

lemma perform_aiMessages: "prefix (aiMessages s) (aiMessages (perform op s))"
proof (cases op)
  case (Handle_event e)
  with handleRealtimeEvent_frame [of e s] show ?thesis
    by (simp add: perform_Handle_event)
qed (simp_all add: perform_def sendAudio_def reader_onload_def sendTextMessage_def
      split: option.splits)

lemma perform_userMessages: "prefix (userMessages s) (userMessages (perform op s))"
proof (cases op)
  case (Handle_event e)
  with handleRealtimeEvent_frame [of e s] show ?thesis
    by (simp add: perform_Handle_event)
qed (simp_all add: perform_def sendAudio_def reader_onload_def sendTextMessage_def
      split: option.splits)

lemma fold_perform_grows:
  "prefix (aiMessages s) (aiMessages (fold perform ops s)) \<and>
   prefix (userMessages s) (userMessages (fold perform ops s))"
proof (induction ops arbitrary: s)
  case Nil
  show ?case by simp
next
  case (Cons op ops)
  have "prefix (aiMessages s) (aiMessages (perform op s))"
       "prefix (userMessages s) (userMessages (perform op s))"
    by (rule perform_aiMessages, rule perform_userMessages)
  with Cons.IH [of "perform op s"] show ?case
    by (auto intro: prefix_order.trans)
qed

text \<open>
  C4. Handling an inbound event (\<^verbatim>\<open>response.done\<close>, \<^verbatim>\<open>response.error\<close> or any
  other, whether the handler returns or throws), \<^verbatim>\<open>sendAudio\<close>, the load callback of its reader and \<^verbatim>\<open>sendTextMessage\<close>
  only append to the two transcripts: from every state, each transcript before the
  operation is a prefix of the transcript after it. Over a sequence of operations the
  entries therefore stand in arrival order: the transcripts after the first operations
  of the sequence are prefixes of the transcripts after all of them.
\<close>

theorem transcripts_only_grow:
  "prefix (aiMessages s) (aiMessages (perform op s)) \<and>
   prefix (userMessages s) (userMessages (perform op s)) \<and>
   prefix (aiMessages (fold perform ops s)) (aiMessages (fold perform (ops @ ops') s)) \<and>
   prefix (userMessages (fold perform ops s)) (userMessages (fold perform (ops @ ops') s))"
  using fold_perform_grows [of "fold perform ops s" ops']
  by (simp add: perform_aiMessages perform_userMessages)

subsection \<open>Recording needs a peer connection\<close>

text \<open>Once a credential has been read, the peer connection reference is set for good.\<close>

lemma initRealTimeConnection_with_credential:
  assumes "token_fetch env = Resolves tokenResponse" and "token_ok tokenResponse"
    and "token_json tokenResponse = Resolves body" and "client_secret body = Some k"
  shows "pcRef (initRealTimeConnection env s) \<noteq> None"
proof (cases "sdp_fetch env")
  case Rejects
  with assms show ?thesis
    by (cases "local_media env"; cases "create_offer env"; cases "set_local_description env")
       (simp_all add: initRealTimeConnection_def init_catch_def Let_def)
next
  case (Resolves sdpResponse)
  with assms show ?thesis
    by (cases "local_media env"; cases "create_offer env"; cases "set_local_description env";
        cases "sdp_text sdpResponse"; cases "set_remote_description env")
       (simp_all add: initRealTimeConnection_def init_catch_def Let_def)
qed

lemma initRealTimeConnection_without_pc:
  assumes "pcRef (initRealTimeConnection env s) = None"
  shows "initRealTimeConnection env s = init_catch s"
proof (cases "token_fetch env")
  case Rejects
  then show ?thesis by (simp add: initRealTimeConnection_def)
next
  case fetched: (Resolves tokenResponse)
  show ?thesis
  proof (cases "token_ok tokenResponse")
    case False
    with fetched show ?thesis by (simp add: initRealTimeConnection_def)
  next
    case ok: True
    show ?thesis
    proof (cases "token_json tokenResponse")
      case Rejects
      with fetched ok show ?thesis by (simp add: initRealTimeConnection_def)
    next
      case json: (Resolves body)
      show ?thesis
      proof (cases "client_secret body")
        case None
        with fetched ok json show ?thesis by (simp add: initRealTimeConnection_def)
      next
        case (Some k)
        with fetched ok json assms
          initRealTimeConnection_with_credential [of env tokenResponse body k s]
        show ?thesis by simp
      qed
    qed
  qed
qed

text \<open>
  On every reachable state without a peer connection there is no data channel and no
  recorder, and the page is neither recording nor processing.
\<close>

lemma reachable_without_pc:
  "reachable s \<Longrightarrow>
   pcRef s = None \<longrightarrow>
     dcRef s = None \<and> mediaRecorder s = None \<and> \<not> isRecording s \<and> \<not> isProcessing s"
proof (induction rule: reachable.induct)
  case mount
  show ?case by (simp add: initial_state_def)
next
  case (init s env)
  show ?case
  proof
    assume none: "pcRef (initRealTimeConnection env s) = None"
    then have eq: "initRealTimeConnection env s = init_catch s"
      by (rule initRealTimeConnection_without_pc)
    with none init.IH show "dcRef (initRealTimeConnection env s) = None \<and>
        mediaRecorder (initRealTimeConnection env s) = None \<and>
        \<not> isRecording (initRealTimeConnection env s) \<and>
        \<not> isProcessing (initRealTimeConnection env s)"
      by (simp add: init_catch_def)
  qed
next
  case (message s JSON_parse data)
  then show ?case
    using dc_onmessage_frame [of JSON_parse data s] by auto
next
  case (channel_open s)
  then show ?case by (auto simp add: dc_onopen_def split: option.splits)
next
  case (track s stream)
  then show ?case by (simp add: pc_ontrack_def Let_def)
next
  case (play s)
  then show ?case by (simp add: handlePlay_def)
next
  case (ended s)
  then show ?case by (simp add: handleEnded_def)
next
  case (start s mic)
  then show ?case
    by (auto simp add: startRecording_def Let_def split: option.splits awaited.splits)
next
  case (chunk s data)
  then show ?case by (simp add: recorder_ondataavailable_def)
next
  case (stop s)
  then show ?case by (auto simp add: stopRecording_def split: option.splits)
next
  case (send_audio s audioBlob)
  then show ?case by (auto simp add: sendAudio_def split: option.splits)
next
  case (load s arrayBuffer s')
  then show ?case by (auto simp add: reader_onload_def split: option.splits if_splits)
next
  case (send_text s msg s')
  then show ?case by (auto simp add: sendTextMessage_def split: option.splits if_splits)
qed

text \<open>
  C8. When the peer connection reference is null, \<^verbatim>\<open>startRecording\<close> only writes an
  error line to the console: it does not call \<^verbatim>\<open>getUserMedia\<close>, makes no recorder
  and leaves the recording and processing flags as they were; on every state the page
  can reach, that is false.
\<close>

theorem startRecording_without_pc:
  assumes "pcRef s = None"
  shows "startRecording mic s =
           s\<lparr>console := console s @ [Console_error ''PeerConnection not initialized.'']\<rparr> \<and>
         getUserMedia_calls (startRecording mic s) = getUserMedia_calls s \<and>
         isRecording (startRecording mic s) = isRecording s \<and>
         isProcessing (startRecording mic s) = isProcessing s \<and>
         (reachable s \<longrightarrow>
            \<not> isRecording (startRecording mic s) \<and> \<not> isProcessing (startRecording mic s) \<and>
            mediaRecorder (startRecording mic s) = None)"
  using assms reachable_without_pc [of s] by (simp add: startRecording_def)

text \<open>After a failed credential fetch (HTTP 500), with the microphone ready to be granted.\<close>

theorem startRecording_without_pc_witness:
  "pcRef (initRealTimeConnection http_500_env initial_state) = None \<and>
   reachable (initRealTimeConnection http_500_env initial_state) \<and>
   \<not> isRecording (startRecording (Resolves ()) (initRealTimeConnection http_500_env initial_state)) \<and>
   \<not> isProcessing (startRecording (Resolves ()) (initRealTimeConnection http_500_env initial_state)) \<and>
   getUserMedia_calls (startRecording (Resolves ()) (initRealTimeConnection http_500_env initial_state)) = 0"
proof -
  have r: "reachable (initRealTimeConnection http_500_env initial_state)"
    by (rule reachable.init, rule reachable.mount)
  have n: "pcRef (initRealTimeConnection http_500_env initial_state) = None"
    by (simp add: initRealTimeConnection_def http_500_env_def ok_env_def init_catch_def
        initial_state_def)
  have g: "getUserMedia_calls (initRealTimeConnection http_500_env initial_state) = 0"
    by (simp add: initRealTimeConnection_def http_500_env_def ok_env_def init_catch_def
        initial_state_def)
  from startRecording_without_pc [OF n, of "Resolves ()"] r n g show ?thesis by metis
qed

subsection \<open>What stop hands to send\<close>

text \<open>
  The recorder made by \<^verbatim>\<open>startRecording\<close> carries the chunks of the state in which
  \<^verbatim>\<open>startRecording\<close> was called, and its stop handler passes a blob of exactly those
  to \<^verbatim>\<open>sendAudio\<close>, whatever has been buffered since.
\<close>

lemma stopRecording_after_start:
  assumes "pcRef s = Some pc"
  shows "snd (stopRecording (startRecording (Resolves u) s)) =
         Some \<lparr> rec_active = True, onstop_audioChunks = audioChunks s \<rparr>"
  using assms by (simp add: startRecording_def stopRecording_def Let_def)

lemma onstop_hands_over_chunks_of_start:
  assumes "dcRef s' = Some dc" and "onstop_audioChunks r = chunks"
  shows "snd (recorder_stop_events r gathered s') = Some (new_Blob chunks)"
  using assms
  by (simp add: recorder_stop_events_def recorder_onstop_def recorder_ondataavailable_def
      sendAudio_def)

text \<open>
  C2, on the first recording of a connected page: the recording is started, stopped, and
  the recorder delivers the one chunk \<open>[1, 2, 3]\<close> followed by its stop event. The
  recording flag is cleared and the chunk is buffered in the state, but the blob handed
  to \<^verbatim>\<open>sendAudio\<close> is empty, and so is the audio envelope sent over the channel.
\<close>

theorem stop_hands_over_chunks_of_the_start_render:
  "(let s1 = startRecording (Resolves ()) connected_state;
        (s2, stopped) = stopRecording s1
    in case stopped of
         None \<Rightarrow> False
       | Some r \<Rightarrow>
           (let (s3, handed) = recorder_stop_events r [1, 2, 3] s2
            in \<not> isRecording s3 \<and> audioChunks s3 = [[1, 2, 3]] \<and> handed = Some [] \<and>
               (case reader_onload [] s3 of
                  Inl err \<Rightarrow> False
                | Inr s4 \<Rightarrow> dc_sent s4 = [Audio_envelope []] \<and>
                            userMessages s4 = [''You: Audio sent''])))"
  by (simp add: startRecording_def stopRecording_def recorder_stop_events_def
      recorder_onstop_def recorder_ondataavailable_def sendAudio_def reader_onload_def
      new_Blob_def blob_size_def connected_state_eq Let_def)

end
